theory Spec2Isabelle
  imports Complex_Main "HOL-Library.Multiset"
begin

section \<open>Numbers\<close>

text \<open>
  The Go code computes on \<^verbatim>\<open>float64\<close>. A value is modelled as a finite real number or
  one of the three special values. Finite arithmetic is exact: rounding, overflow to
  infinity and the sign of zero are not modelled (the single zero behaves as \<^verbatim>\<open>+0\<close>).
  What is modelled is the part of IEEE 754 that decides the control flow of the program:
  division by zero, arithmetic on the special values, and comparisons, which are all
  false on \<open>NaN\<close>.
\<close>

datatype float64 = Fin real | PInf | NInf | NaN

fun fneg :: "float64 \<Rightarrow> float64" where
  "fneg (Fin x) = Fin (- x)"
| "fneg PInf = NInf"
| "fneg NInf = PInf"
| "fneg NaN = NaN"

fun fadd :: "float64 \<Rightarrow> float64 \<Rightarrow> float64" where
  "fadd (Fin x) (Fin y) = Fin (x + y)"
| "fadd NaN _ = NaN"
| "fadd _ NaN = NaN"
| "fadd PInf NInf = NaN"
| "fadd NInf PInf = NaN"
| "fadd PInf _ = PInf"
| "fadd _ PInf = PInf"
| "fadd NInf _ = NInf"
| "fadd _ NInf = NInf"

definition fsub :: "float64 \<Rightarrow> float64 \<Rightarrow> float64" where
  "fsub a b = fadd a (fneg b)"

fun fmul :: "float64 \<Rightarrow> float64 \<Rightarrow> float64" where
  "fmul (Fin x) (Fin y) = Fin (x * y)"
| "fmul NaN _ = NaN"
| "fmul _ NaN = NaN"
| "fmul PInf (Fin y) = (if y = 0 then NaN else if 0 < y then PInf else NInf)"
| "fmul NInf (Fin y) = (if y = 0 then NaN else if 0 < y then NInf else PInf)"
| "fmul (Fin x) PInf = (if x = 0 then NaN else if 0 < x then PInf else NInf)"
| "fmul (Fin x) NInf = (if x = 0 then NaN else if 0 < x then NInf else PInf)"
| "fmul PInf PInf = PInf"
| "fmul PInf NInf = NInf"
| "fmul NInf PInf = NInf"
| "fmul NInf NInf = PInf"

fun fdiv :: "float64 \<Rightarrow> float64 \<Rightarrow> float64" where
  "fdiv (Fin x) (Fin y) =
     (if y \<noteq> 0 then Fin (x / y)
      else if x = 0 then NaN else if 0 < x then PInf else NInf)"
| "fdiv NaN _ = NaN"
| "fdiv _ NaN = NaN"
| "fdiv (Fin x) PInf = Fin 0"
| "fdiv (Fin x) NInf = Fin 0"
| "fdiv PInf (Fin y) = (if 0 \<le> y then PInf else NInf)"
| "fdiv NInf (Fin y) = (if 0 \<le> y then NInf else PInf)"
| "fdiv PInf PInf = NaN"
| "fdiv PInf NInf = NaN"
| "fdiv NInf PInf = NaN"
| "fdiv NInf NInf = NaN"

fun fabs :: "float64 \<Rightarrow> float64" where
  "fabs (Fin x) = Fin \<bar>x\<bar>"
| "fabs PInf = PInf"
| "fabs NInf = PInf"
| "fabs NaN = NaN"

fun flt :: "float64 \<Rightarrow> float64 \<Rightarrow> bool" where
  "flt (Fin x) (Fin y) = (x < y)"
| "flt NaN _ = False"
| "flt _ NaN = False"
| "flt _ NInf = False"
| "flt PInf _ = False"
| "flt NInf _ = True"
| "flt _ PInf = True"

fun fle :: "float64 \<Rightarrow> float64 \<Rightarrow> bool" where
  "fle (Fin x) (Fin y) = (x \<le> y)"
| "fle NaN _ = False"
| "fle _ NaN = False"
| "fle NInf _ = True"
| "fle _ PInf = True"
| "fle _ NInf = False"
| "fle PInf _ = False"

definition fgt :: "float64 \<Rightarrow> float64 \<Rightarrow> bool" where
  "fgt a b = flt b a"


section \<open>Data model\<close>

record OrderBookLevel =
  Price :: float64
  Size :: float64
  Orders :: int

record OrderBook =
  ob_InstID :: string
  Bids :: "OrderBookLevel list"
  Asks :: "OrderBookLevel list"
  TS :: string

record WeightedPriceResult =
  Symbol :: string
  Side :: string
  TradeSize :: float64
  WeightedPrice :: float64
  TotalCost :: float64
  Liquidity :: float64
  HasEnoughLiquidity :: bool
  Slippage :: float64

text \<open>The three \<^verbatim>\<open>fmt.Errorf\<close> returns of \<^verbatim>\<open>CalculateWeightedPrice\<close>.\<close>

datatype pricing_error = NoAskOrders | NoBidOrders | InvalidSide string

section \<open>Order book pricer\<close>

text \<open>
  The \<^verbatim>\<open>for _, level := range levels\<close> loop of \<^verbatim>\<open>CalculateWeightedPrice\<close>, on the
  state \<open>(totalCost, remainingSize, liquidity)\<close>. The \<^verbatim>\<open>break\<close> returns the state.
\<close>

fun walk_levels ::
  "OrderBookLevel list \<Rightarrow> float64 \<times> float64 \<times> float64 \<Rightarrow> float64 \<times> float64 \<times> float64" where
  "walk_levels [] st = st"
| "walk_levels (level # rest) (totalCost, remainingSize, liquidity) =
     (if fle remainingSize (Fin 0) then (totalCost, remainingSize, liquidity)
      else
        let levelSize = (if flt remainingSize (Size level) then remainingSize else Size level);
            cost = fmul levelSize (Price level)
        in walk_levels rest
             (fadd totalCost cost, fsub remainingSize levelSize,
              fadd liquidity (fmul levelSize (Price level))))"

definition price_levels ::
  "string \<Rightarrow> string \<Rightarrow> float64 \<Rightarrow> OrderBookLevel list \<Rightarrow> float64 \<Rightarrow> WeightedPriceResult" where
  "price_levels inst side tradeSize levels bestPrice =
     (case walk_levels levels (Fin 0, tradeSize, Fin 0) of
        (totalCost, remainingSize, liquidity) \<Rightarrow>
          if fgt remainingSize (Fin 0) then
            \<lparr>Symbol = inst, Side = side, TradeSize = tradeSize, WeightedPrice = Fin 0,
             TotalCost = Fin 0, Liquidity = liquidity, HasEnoughLiquidity = False,
             Slippage = Fin 0\<rparr>
          else
            let weightedPrice = fdiv totalCost tradeSize;
                slippage =
                  (if side = ''buy''
                   then fmul (fdiv (fsub weightedPrice bestPrice) bestPrice) (Fin 100)
                   else fmul (fdiv (fsub bestPrice weightedPrice) bestPrice) (Fin 100))
            in \<lparr>Symbol = inst, Side = side, TradeSize = tradeSize,
                WeightedPrice = weightedPrice, TotalCost = totalCost, Liquidity = liquidity,
                HasEnoughLiquidity = True, Slippage = slippage\<rparr>)"

text \<open>
  \<^verbatim>\<open>CalculateWeightedPrice\<close>: the side selects the levels and the best price
  (\<^verbatim>\<open>levels[0].Price\<close>, read only after the emptiness check), then the body above runs.
\<close>

definition CalculateWeightedPrice ::
  "OrderBook \<Rightarrow> string \<Rightarrow> float64 \<Rightarrow> pricing_error + WeightedPriceResult" where
  "CalculateWeightedPrice orderBook side tradeSize =
     (if side = ''buy'' then
        (case Asks orderBook of
           [] \<Rightarrow> Inl NoAskOrders
         | l # ls \<Rightarrow> Inr (price_levels (ob_InstID orderBook) side tradeSize (l # ls) (Price l)))
      else if side = ''sell'' then
        (case Bids orderBook of
           [] \<Rightarrow> Inl NoBidOrders
         | l # ls \<Rightarrow> Inr (price_levels (ob_InstID orderBook) side tradeSize (l # ls) (Price l)))
      else Inl (InvalidSide side))"

section \<open>Specification vocabulary for the pricer\<close>

text \<open>
  An order book side whose prices and sizes are all finite numbers is given by a list of
  triples (price, size, order count). The functions \<open>fill_cost\<close> and \<open>fill_rem\<close> follow the
  words of the specification over the reals: walk the levels best to worst, fill
  \<open>min remaining size\<close> at each level, add price times filled size to the cost, and stop
  once nothing remains to be filled.
\<close>

definition fin_levels :: "(real \<times> real \<times> int) list \<Rightarrow> OrderBookLevel list" where
  "fin_levels pss = map (\<lambda>(p, s, n). \<lparr>Price = Fin p, Size = Fin s, Orders = n\<rparr>) pss"

definition relevant_side :: "OrderBook \<Rightarrow> string \<Rightarrow> OrderBookLevel list" where
  "relevant_side ob side = (if side = ''buy'' then Asks ob else Bids ob)"






text \<open>Two concrete books used to run the definitions.\<close>

definition scenario_book :: OrderBook where
  "scenario_book =
     \<lparr>ob_InstID = ''BTC-USDT'', Bids = fin_levels [(99, 1, 1), (98, 3, 2)],
      Asks = fin_levels [(100, 1, 1), (101, 2, 1)], TS = ''1700000000000''\<rparr>"

definition thin_book :: OrderBook where
  "thin_book =
     \<lparr>ob_InstID = ''ETH-USDT'', Bids = fin_levels [(99, 2, 1)],
      Asks = fin_levels [(100, 1, 1)], TS = ''1700000000000''\<rparr>"

section \<open>Instruments and symbol matching\<close>

text \<open>
  \<^verbatim>\<open>Extra\<close> is the bag of unrecognised JSON attributes (\<^verbatim>\<open>map[string]interface{}\<close>); no
  function below reads it, so its type is a parameter.
\<close>

record 'x Instrument =
  InstID :: string
  InstType :: string
  BaseCcy :: string
  QuoteCcy :: string
  State :: string
  MarkPx :: string
  Lever :: string
  LotSz :: string
  TickSz :: string
  MinSz :: string
  MaxSz :: string
  Extra :: 'x

record 'x MatchingSymbol =
  BaseSymbol :: string
  Margin :: "'x Instrument"
  Swap :: "'x Instrument"

text \<open>
  \<^verbatim>\<open>strings.Split(s, sep)\<close> for a one-character separator: the pieces between the
  separators, one more than there are separators; the empty string gives one empty piece.
\<close>

fun strings_Split :: "char \<Rightarrow> string \<Rightarrow> string list" where
  "strings_Split sep [] = [[]]"
| "strings_Split sep (c # cs) =
     (if c = sep then [] # strings_Split sep cs
      else (case strings_Split sep cs of
              [] \<Rightarrow> [[c]]
            | piece # pieces \<Rightarrow> (c # piece) # pieces))"

definition ExtractBaseSymbol :: "string \<Rightarrow> string" where
  "ExtractBaseSymbol instID =
     (let parts = strings_Split (CHR ''-'') instID
      in if length parts \<ge> 2 then parts ! 0 else instID)"

text \<open>
  The lookup that each of the first two loops of \<^verbatim>\<open>FindMatchingSymbols\<close> builds: a later
  instrument overwrites an earlier one stored under the same key.
\<close>

definition symbol_table :: "'x Instrument list \<Rightarrow> (string \<rightharpoonup> 'x Instrument)" where
  "symbol_table instruments =
     foldl (\<lambda>symbols inst. symbols(ExtractBaseSymbol (InstID inst) \<mapsto> inst)) Map.empty instruments"

text \<open>
  \<^verbatim>\<open>FindMatchingSymbols\<close>. Go leaves the order in which \<^verbatim>\<open>range marginSymbols\<close> visits the
  keys unspecified, so the order is the argument \<open>keyOrder\<close>: any list that names every key
  of \<open>marginSymbols\<close> exactly once (\<open>range_order\<close>).
\<close>

definition FindMatchingSymbols ::
  "string list \<Rightarrow> 'x Instrument list \<Rightarrow> 'x Instrument list \<Rightarrow> 'x MatchingSymbol list" where
  "FindMatchingSymbols keyOrder marginInstruments swapInstruments =
     (let marginSymbols = symbol_table marginInstruments;
          swapSymbols = symbol_table swapInstruments
      in List.map_filter
           (\<lambda>baseSymbol.
              case marginSymbols baseSymbol of
                None \<Rightarrow> None
              | Some marginInst \<Rightarrow>
                  (case swapSymbols baseSymbol of
                     None \<Rightarrow> None
                   | Some swapInst \<Rightarrow>
                       Some \<lparr>BaseSymbol = baseSymbol, Margin = marginInst, Swap = swapInst\<rparr>))
           keyOrder)"

definition instrument_keys :: "'x Instrument list \<Rightarrow> string list" where
  "instrument_keys instruments = map (\<lambda>inst. ExtractBaseSymbol (InstID inst)) instruments"

definition range_order :: "string list \<Rightarrow> 'x Instrument list \<Rightarrow> bool" where
  "range_order keyOrder marginInstruments \<longleftrightarrow>
     distinct keyOrder \<and> set keyOrder = set (instrument_keys marginInstruments)"

text \<open>The instrument that is processed last among those stored under a key.\<close>

definition last_under_key :: "string \<Rightarrow> 'x Instrument list \<Rightarrow> 'x Instrument option" where
  "last_under_key k instruments =
     List.find (\<lambda>inst. ExtractBaseSymbol (InstID inst) = k) (rev instruments)"

section \<open>Sorting\<close>

text \<open>
  \<^verbatim>\<open>sort.Slice\<close> belongs to the Go library. It is modelled by the library's insertion sort
  (\<^verbatim>\<open>for i := a+1; i < b; i++ { for j := i; j > a && less(j, j-1); j-- { swap(j, j-1) } }\<close>),
  the routine the library applies to short slices. On longer slices the library runs a
  quicksort, which orders the slice by the same comparison but may leave equal elements in
  another relative order: the library documents the sort as not stable. The properties
  proved below do not depend on the relative order of equal elements.

  \<open>sift lessFn x left\<close> is the inner loop: \<open>left\<close> holds the elements left of \<open>x\<close>,
  nearest first, and \<open>x\<close> moves left while it is less than its left neighbour.
\<close>

fun sift :: "('a \<Rightarrow> 'a \<Rightarrow> bool) \<Rightarrow> 'a \<Rightarrow> 'a list \<Rightarrow> 'a list" where
  "sift lessFn x [] = [x]"
| "sift lessFn x (y # ys) = (if lessFn x y then y # sift lessFn x ys else x # y # ys)"

definition sort_Slice :: "('a \<Rightarrow> 'a \<Rightarrow> bool) \<Rightarrow> 'a list \<Rightarrow> 'a list" where
  "sort_Slice lessFn xs = rev (foldl (\<lambda>left x. sift lessFn x left) [] xs)"




section \<open>Reference price differences\<close>

record DiffResult =
  diff_BaseSymbol :: string
  MarginMarkPx :: float64
  SwapMarkPx :: float64
  diff_PercentDiff :: float64
  diff_ActualDiff :: float64
  diff_IsContango :: bool
  diff_TermStructure :: string

text \<open>
  \<^verbatim>\<open>ParseFloat\<close> rejects the empty string and otherwise calls \<^verbatim>\<open>strconv.ParseFloat\<close>, a
  library function that is the parameter \<open>parse\<close> here (\<open>None\<close> when it returns an error).
\<close>

definition ParseFloat :: "(string \<Rightarrow> float64 option) \<Rightarrow> string \<Rightarrow> float64 option" where
  "ParseFloat parse s = (if s = [] then None else parse s)"


text \<open>
  The body of the loop of \<^verbatim>\<open>CalculateTopMarkPxDiffs\<close>: \<open>None\<close> for each \<^verbatim>\<open>continue\<close>,
  \<open>Some\<close> of the appended result otherwise. The logged warnings are not modelled.
\<close>

definition markPxDiff ::
  "(string \<Rightarrow> float64 option) \<Rightarrow> float64 \<Rightarrow> 'x MatchingSymbol \<Rightarrow> DiffResult option" where
  "markPxDiff parse minDiff match =
     (case ParseFloat parse (MarkPx (Margin match)) of
        None \<Rightarrow> None
      | Some marginPx \<Rightarrow>
          (case ParseFloat parse (MarkPx (Swap match)) of
             None \<Rightarrow> None
           | Some swapPx \<Rightarrow>
               if fle marginPx (Fin 0) \<or> fle swapPx (Fin 0) then None
               else
                 let actualDiff = fsub swapPx marginPx;
                     meanPx = fdiv (fadd marginPx swapPx) (Fin 2);
                     percentDiff = fdiv (fmul (Fin 100) (fabs actualDiff)) meanPx
                 in if flt percentDiff minDiff then None
                    else
                      let isContango = fgt actualDiff (Fin 0);
                          termStructure = (if isContango then ''Contango'' else ''Backwardation'')
                      in Some \<lparr>diff_BaseSymbol = BaseSymbol match, MarginMarkPx = marginPx,
                               SwapMarkPx = swapPx, diff_PercentDiff = percentDiff,
                               diff_ActualDiff = actualDiff, diff_IsContango = isContango,
                               diff_TermStructure = termStructure\<rparr>))"


section \<open>Fees and the printed table\<close>

record FeeInfo =
  SpotTaker :: float64
  SwapTaker :: float64
  MarginBorrow :: float64

definition EstimateFees :: "DiffResult \<Rightarrow> FeeInfo \<Rightarrow> (string \<rightharpoonup> float64) \<Rightarrow> float64" where
  "EstimateFees diff fees borrowRates =
     (let fee = fadd (fmul (SpotTaker fees) (Fin 2)) (fmul (SwapTaker fees) (Fin 2))
      in if diff_TermStructure diff = ''Backwardation'' then
           let borrow =
                 (case borrowRates (diff_BaseSymbol diff) of
                    Some r \<Rightarrow> if fgt r (Fin 0) then r else MarginBorrow fees
                  | None \<Rightarrow> MarginBorrow fees)
           in fadd fee (fmul borrow (Fin 1))
         else fee)"




section \<open>Execution price arbitrage\<close>

record RealArbitrageResult =
  real_BaseSymbol :: string
  MarginBuyPrice :: float64
  MarginSellPrice :: float64
  SwapBuyPrice :: float64
  SwapSellPrice :: float64
  real_PercentDiff :: float64
  real_ActualDiff :: float64
  real_IsContango :: bool
  real_TermStructure :: string
  MarginLiquidity :: float64
  SwapLiquidity :: float64
  real_HasEnoughLiquidity :: bool
  MarginSlippage :: float64
  SwapSlippage :: float64

record TradingConfig =
  TradeSizeUSD :: float64
  MinLiquidityUSD :: float64
  MaxSlippage :: float64
  OrderBookDepth :: int

text \<open>
  The choice between the two directions at the end of the loop body of
  \<^verbatim>\<open>CalculateRealArbitrageOpportunities\<close>, given the four priced legs.
\<close>

definition choose_direction ::
  "string \<Rightarrow> WeightedPriceResult \<Rightarrow> WeightedPriceResult \<Rightarrow> WeightedPriceResult \<Rightarrow>
     WeightedPriceResult \<Rightarrow> bool \<Rightarrow> RealArbitrageResult option" where
  "choose_direction baseSymbol marginBuy marginSell swapBuy swapSell hasEnoughLiquidity =
     (let contangoDiff = fsub (WeightedPrice swapSell) (WeightedPrice marginBuy);
          contangoPercent =
            fmul (fdiv contangoDiff
                    (fdiv (fadd (WeightedPrice swapSell) (WeightedPrice marginBuy)) (Fin 2)))
                 (Fin 100);
          backwardationDiff = fsub (WeightedPrice marginSell) (WeightedPrice swapBuy);
          backwardationPercent =
            fmul (fdiv backwardationDiff
                    (fdiv (fadd (WeightedPrice marginSell) (WeightedPrice swapBuy)) (Fin 2)))
                 (Fin 100)
      in if fgt contangoPercent backwardationPercent \<and> fgt contangoPercent (Fin 0) then
           Some \<lparr>real_BaseSymbol = baseSymbol,
                 MarginBuyPrice = WeightedPrice marginBuy,
                 MarginSellPrice = WeightedPrice marginSell,
                 SwapBuyPrice = WeightedPrice swapBuy,
                 SwapSellPrice = WeightedPrice swapSell,
                 real_PercentDiff = contangoPercent,
                 real_ActualDiff = contangoDiff,
                 real_IsContango = True,
                 real_TermStructure = ''Contango'',
                 MarginLiquidity = Liquidity marginBuy,
                 SwapLiquidity = Liquidity swapSell,
                 real_HasEnoughLiquidity = hasEnoughLiquidity,
                 MarginSlippage = Slippage marginBuy,
                 SwapSlippage = Slippage swapSell\<rparr>
         else if fgt backwardationPercent (Fin 0) then
           Some \<lparr>real_BaseSymbol = baseSymbol,
                 MarginBuyPrice = WeightedPrice marginBuy,
                 MarginSellPrice = WeightedPrice marginSell,
                 SwapBuyPrice = WeightedPrice swapBuy,
                 SwapSellPrice = WeightedPrice swapSell,
                 real_PercentDiff = backwardationPercent,
                 real_ActualDiff = backwardationDiff,
                 real_IsContango = False,
                 real_TermStructure = ''Backwardation'',
                 MarginLiquidity = Liquidity marginSell,
                 SwapLiquidity = Liquidity swapBuy,
                 real_HasEnoughLiquidity = hasEnoughLiquidity,
                 MarginSlippage = Slippage marginSell,
                 SwapSlippage = Slippage swapBuy\<rparr>
         else None)"

text \<open>
  The body of the loop of \<^verbatim>\<open>CalculateRealArbitrageOpportunities\<close>: \<open>None\<close> for each
  \<^verbatim>\<open>continue\<close>. The network call \<^verbatim>\<open>client.FetchOrderBook(ctx, instID, depth)\<close> is the
  parameter \<open>fetch\<close>, \<open>None\<close> when it returns an error. The printed warnings are not
  modelled.
\<close>

definition realArbitrage ::
  "(string \<Rightarrow> float64 option) \<Rightarrow> (string \<Rightarrow> int \<Rightarrow> OrderBook option) \<Rightarrow> TradingConfig \<Rightarrow>
     'x MatchingSymbol \<Rightarrow> RealArbitrageResult option" where
  "realArbitrage parse fetch config match =
     (case fetch (InstID (Margin match)) (OrderBookDepth config) of
        None \<Rightarrow> None
      | Some marginOrderBook \<Rightarrow>
     (case fetch (InstID (Swap match)) (OrderBookDepth config) of
        None \<Rightarrow> None
      | Some swapOrderBook \<Rightarrow>
     (case ParseFloat parse (MarkPx (Margin match)) of
        None \<Rightarrow> None
      | Some marginPrice \<Rightarrow>
     if fle marginPrice (Fin 0) then None
     else
       let tradeSizeBase = fdiv (TradeSizeUSD config) marginPrice in
     (case CalculateWeightedPrice marginOrderBook ''buy'' tradeSizeBase of
        Inl err \<Rightarrow> None
      | Inr marginBuy \<Rightarrow>
     (case CalculateWeightedPrice marginOrderBook ''sell'' tradeSizeBase of
        Inl err \<Rightarrow> None
      | Inr marginSell \<Rightarrow>
     (case CalculateWeightedPrice swapOrderBook ''buy'' tradeSizeBase of
        Inl err \<Rightarrow> None
      | Inr swapBuy \<Rightarrow>
     (case CalculateWeightedPrice swapOrderBook ''sell'' tradeSizeBase of
        Inl err \<Rightarrow> None
      | Inr swapSell \<Rightarrow>
     let hasEnoughLiquidity =
           (HasEnoughLiquidity marginBuy \<and> HasEnoughLiquidity marginSell \<and>
            HasEnoughLiquidity swapBuy \<and> HasEnoughLiquidity swapSell)
     in if \<not> hasEnoughLiquidity then None
        else if fgt (Slippage marginBuy) (MaxSlippage config) \<or>
                fgt (Slippage marginSell) (MaxSlippage config) \<or>
                fgt (Slippage swapBuy) (MaxSlippage config) \<or>
                fgt (Slippage swapSell) (MaxSlippage config) then None
        else choose_direction (BaseSymbol match) marginBuy marginSell swapBuy swapSell
               hasEnoughLiquidity)))))))"



section \<open>Specification vocabulary for fees, differences and matching\<close>

text \<open>
  The round-trip fee and the borrow rate in the words of the specification:
  \<open>2 * spotTaker + 2 * swapTaker\<close>, and the per-asset override when there is one and it is
  positive, else the default of the schedule.
\<close>

definition spec_round_trip :: "FeeInfo \<Rightarrow> float64" where
  "spec_round_trip fees = fadd (fmul (Fin 2) (SpotTaker fees)) (fmul (Fin 2) (SwapTaker fees))"

definition spec_borrow_rate :: "FeeInfo \<Rightarrow> (string \<rightharpoonup> float64) \<Rightarrow> string \<Rightarrow> float64" where
  "spec_borrow_rate fees borrowRates baseSymbol =
     (case borrowRates baseSymbol of
        None \<Rightarrow> MarginBorrow fees
      | Some r \<Rightarrow> if fgt r (Fin 0) then r else MarginBorrow fees)"

text \<open>The percentage difference of two reference prices as the specification writes it.\<close>

definition spec_percentDiff :: "real \<Rightarrow> real \<Rightarrow> real" where
  "spec_percentDiff priceA priceB = 100 * \<bar>priceA - priceB\<bar> / ((priceA + priceB) / 2)"

text \<open>Concrete fees, results, instruments and price texts used to run the definitions.\<close>

definition sample_fees :: FeeInfo where
  "sample_fees = \<lparr>SpotTaker = Fin 0.001, SwapTaker = Fin 0.0005, MarginBorrow = Fin 0.0002\<rparr>"

definition sample_diff :: "string \<Rightarrow> string \<Rightarrow> DiffResult" where
  "sample_diff baseSymbol structure =
     \<lparr>diff_BaseSymbol = baseSymbol, MarginMarkPx = Fin 100, SwapMarkPx = Fin 100.3,
      diff_PercentDiff = Fin 0.3, diff_ActualDiff = Fin 0.3,
      diff_IsContango = (structure = ''Contango''), diff_TermStructure = structure\<rparr>"

definition example_instrument :: "string \<Rightarrow> string \<Rightarrow> string \<Rightarrow> unit Instrument" where
  "example_instrument instID instType markPx =
     \<lparr>InstID = instID, InstType = instType, BaseCcy = [], QuoteCcy = ''USDT'',
      State = ''live'', MarkPx = markPx, Lever = ''10'', LotSz = ''1'', TickSz = ''0.1'',
      MinSz = ''1'', MaxSz = ''1000'', Extra = ()\<rparr>"

text \<open>The values \<^verbatim>\<open>strconv.ParseFloat\<close> gives on the price texts of the examples.\<close>

definition example_parse :: "string \<Rightarrow> float64 option" where
  "example_parse =
     map_of [(''100.0'', Fin 100), (''100.3'', Fin 100.3), (''100'', Fin 100),
             (''101'', Fin 101), (''200'', Fin 200), (''202'', Fin 202), (''0'', Fin 0)]"

definition example_match :: "string \<Rightarrow> string \<Rightarrow> string \<Rightarrow> unit MatchingSymbol" where
  "example_match base marginPx swapPx =
     \<lparr>BaseSymbol = base,
      Margin = example_instrument (base @ ''-USDT'') ''MARGIN'' marginPx,
      Swap = example_instrument (base @ ''-USDT-SWAP'') ''SWAP'' swapPx\<rparr>"

definition example_margin :: "unit Instrument list" where
  "example_margin =
     [example_instrument ''BTC-USDT'' ''MARGIN'' ''100'',
      example_instrument ''ETH-USDT'' ''MARGIN'' ''200'',
      example_instrument ''ETH-USDC'' ''MARGIN'' ''202'',
      example_instrument ''DOGE-USDT'' ''MARGIN'' ''0'',
      example_instrument ''XAUT'' ''MARGIN'' ''101'']"

definition example_swap :: "unit Instrument list" where
  "example_swap =
     [example_instrument ''BTC-USDT-SWAP'' ''SWAP'' ''101'',
      example_instrument ''ETH-USDT-SWAP'' ''SWAP'' ''202'',
      example_instrument ''SOL-USDT-SWAP'' ''SWAP'' ''100'',
      example_instrument ''XAUT-USDT-SWAP'' ''SWAP'' ''100'']"

section \<open>Specification vocabulary for the profit filter and the evaluator\<close>


text \<open>Concrete results, books and parameters used to run the definitions.\<close>

definition sample_real :: "string \<Rightarrow> float64 \<Rightarrow> RealArbitrageResult" where
  "sample_real baseSymbol percentDiff =
     \<lparr>real_BaseSymbol = baseSymbol, MarginBuyPrice = Fin 100, MarginSellPrice = Fin 99,
      SwapBuyPrice = Fin 102, SwapSellPrice = Fin 101, real_PercentDiff = percentDiff,
      real_ActualDiff = Fin 1, real_IsContango = True, real_TermStructure = ''Contango'',
      MarginLiquidity = Fin 1000, SwapLiquidity = Fin 1010, real_HasEnoughLiquidity = True,
      MarginSlippage = Fin 0, SwapSlippage = Fin 0\<rparr>"

text \<open>
  The percentage of a direction as the specification writes it, \<open>100 * value / mean\<close> with
  \<open>value = sellPrice - buyPrice\<close>, and the four fields of a result that name the direction.
\<close>

definition spec_percent :: "float64 \<Rightarrow> float64 \<Rightarrow> float64" where
  "spec_percent sellPrice buyPrice =
     fdiv (fmul (Fin 100) (fsub sellPrice buyPrice)) (fdiv (fadd sellPrice buyPrice) (Fin 2))"

definition direction_summary :: "RealArbitrageResult \<Rightarrow> bool \<times> string \<times> float64 \<times> float64" where
  "direction_summary r =
     (real_IsContango r, real_TermStructure r, real_PercentDiff r, real_ActualDiff r)"

definition example_config :: TradingConfig where
  "example_config =
     \<lparr>TradeSizeUSD = Fin 1000, MinLiquidityUSD = Fin 10000, MaxSlippage = Fin 0.5,
      OrderBookDepth = 20\<rparr>"

definition example_book :: "string \<Rightarrow> real \<Rightarrow> real \<Rightarrow> OrderBook" where
  "example_book instID bid ask =
     \<lparr>ob_InstID = instID, Bids = fin_levels [(bid, 50, 3)], Asks = fin_levels [(ask, 50, 2)],
      TS = ''1700000000000''\<rparr>"

definition example_fetch :: "string \<Rightarrow> int \<Rightarrow> OrderBook option" where
  "example_fetch instID depth =
     map_of [(''BTC-USDT'', example_book ''BTC-USDT'' 99 100),
             (''BTC-USDT-SWAP'', example_book ''BTC-USDT-SWAP'' 101 102),
             (''ETH-USDT'', example_book ''ETH-USDT'' 199 200),
             (''ETH-USDT-SWAP'', example_book ''ETH-USDT-SWAP'' 199 200),
             (''SOL-USDT'', example_book ''SOL-USDT'' 99 100),
             (''SOL-USDT-SWAP'', example_book ''SOL-USDT-SWAP'' 101 102)] instID"

section \<open>Specification vocabulary for the ranking\<close>




section \<open>Properties of the pricer\<close>

lemma NaN_right [simp]:
  "fadd a NaN = NaN" "fmul a NaN = NaN" "fdiv a NaN = NaN" "fsub a NaN = NaN"
  by (cases a; simp add: fsub_def)+

lemma NaN_left [simp]: "fsub NaN a = NaN"
  by (simp add: fsub_def)











text \<open>
  C4 as stated fails: with a requested size of zero the loop stops before the first level
  and the weighted price is the quotient \<open>0 / 0\<close>, which is \<open>NaN\<close>, not the best price 100.
\<close>

theorem weighted_price_zero_size_counterexample:
  "CalculateWeightedPrice thin_book ''buy'' (Fin 0) =
     Inr \<lparr>Symbol = ''ETH-USDT'', Side = ''buy'', TradeSize = Fin 0,
          WeightedPrice = NaN, TotalCost = Fin 0, Liquidity = Fin 0,
          HasEnoughLiquidity = True, Slippage = NaN\<rparr> \<and>
   Asks thin_book = fin_levels [(100, 1, 1)] \<and> NaN \<noteq> Fin 100 \<and> NaN \<noteq> Fin 0"
  by (simp add: thin_book_def CalculateWeightedPrice_def fin_levels_def price_levels_def
      fgt_def fsub_def)

text \<open>
  C4, amended: with a requested size of zero and a non-empty relevant side the call
  succeeds with sufficient liquidity, zero total cost and zero liquidity, and both the
  weighted price and the slippage are \<open>NaN\<close>.
\<close>

theorem weighted_price_zero_size:
  assumes "side = ''buy'' \<or> side = ''sell''" and "relevant_side ob side \<noteq> []"
  shows "CalculateWeightedPrice ob side (Fin 0) =
           Inr \<lparr>Symbol = ob_InstID ob, Side = side, TradeSize = Fin 0,
                WeightedPrice = NaN, TotalCost = Fin 0, Liquidity = Fin 0,
                HasEnoughLiquidity = True, Slippage = NaN\<rparr>"
  using assms
  by (auto simp: CalculateWeightedPrice_def relevant_side_def price_levels_def fgt_def
      fsub_def split: list.splits)

theorem weighted_price_zero_size_witness:
  "(''sell'' = ''buy'' \<or> ''sell'' = ''sell'') \<and> relevant_side scenario_book ''sell'' \<noteq> [] \<and>
   CalculateWeightedPrice scenario_book ''sell'' (Fin 0) =
     Inr \<lparr>Symbol = ''BTC-USDT'', Side = ''sell'', TradeSize = Fin 0,
          WeightedPrice = NaN, TotalCost = Fin 0, Liquidity = Fin 0,
          HasEnoughLiquidity = True, Slippage = NaN\<rparr>"
  using weighted_price_zero_size[of "''sell''" scenario_book]
  by (simp add: scenario_book_def relevant_side_def fin_levels_def)

section \<open>Properties of fees, differences and matching\<close>

lemma fmul_commute: "fmul a b = fmul b a"
  by (cases a; cases b; simp)

lemma fmul_one [simp]: "fmul a (Fin 1) = a"
  by (cases a; simp)

text \<open>
  C7: for a result whose term structure is Contango, \<open>EstimateFees\<close> returns the round-trip
  fee \<open>2 * spotTaker + 2 * swapTaker\<close>; for Backwardation it adds one hour of borrow cost,
  at the per-asset rate when the map has a strictly positive entry for the base symbol and
  at the default \<open>MarginBorrow\<close> of the schedule otherwise.
\<close>

theorem estimate_fees:
  "(diff_TermStructure d = ''Contango'' \<longrightarrow>
      EstimateFees d fees borrowRates = spec_round_trip fees) \<and>
   (diff_TermStructure d = ''Backwardation'' \<longrightarrow>
      EstimateFees d fees borrowRates =
        fadd (spec_round_trip fees) (spec_borrow_rate fees borrowRates (diff_BaseSymbol d)))"
  by (simp add: EstimateFees_def spec_round_trip_def spec_borrow_rate_def fmul_commute
      split: option.splits)

theorem estimate_fees_witness:
  "diff_TermStructure (sample_diff ''BTC'' ''Contango'') = ''Contango'' \<and>
   EstimateFees (sample_diff ''BTC'' ''Contango'') sample_fees [''BTC'' \<mapsto> Fin 0.0001] = Fin 0.003 \<and>
   diff_TermStructure (sample_diff ''BTC'' ''Backwardation'') = ''Backwardation'' \<and>
   EstimateFees (sample_diff ''BTC'' ''Backwardation'') sample_fees [''BTC'' \<mapsto> Fin 0.0001]
     = Fin 0.0031 \<and>
   EstimateFees (sample_diff ''BTC'' ''Backwardation'') sample_fees [''BTC'' \<mapsto> Fin 0]
     = Fin 0.0032 \<and>
   EstimateFees (sample_diff ''BTC'' ''Backwardation'') sample_fees Map.empty = Fin 0.0032"
  using estimate_fees[of "sample_diff ''BTC'' ''Contango''" sample_fees "[''BTC'' \<mapsto> Fin 0.0001]"]
    estimate_fees[of "sample_diff ''BTC'' ''Backwardation''" sample_fees "[''BTC'' \<mapsto> Fin 0.0001]"]
    estimate_fees[of "sample_diff ''BTC'' ''Backwardation''" sample_fees "[''BTC'' \<mapsto> Fin 0]"]
    estimate_fees[of "sample_diff ''BTC'' ''Backwardation''" sample_fees "Map.empty"]
  by (simp add: sample_diff_def sample_fees_def spec_round_trip_def spec_borrow_rate_def fgt_def)

lemma markPxDiff_fin:
  assumes "MarkPx (Margin m) \<noteq> []" and "MarkPx (Swap m) \<noteq> []"
    and "parse (MarkPx (Margin m)) = Some (Fin a)" and "parse (MarkPx (Swap m)) = Some (Fin b)"
    and "0 < a" and "0 < b"
  shows "markPxDiff parse minDiff m =
           (if flt (Fin (spec_percentDiff a b)) minDiff then None
            else Some \<lparr>diff_BaseSymbol = BaseSymbol m, MarginMarkPx = Fin a, SwapMarkPx = Fin b,
                       diff_PercentDiff = Fin (spec_percentDiff a b),
                       diff_ActualDiff = Fin (b - a), diff_IsContango = (a < b),
                       diff_TermStructure = (if a < b then ''Contango'' else ''Backwardation'')\<rparr>)"
proof -
  have "a + b \<noteq> 0" using assms(5,6) by simp
  moreover have "\<bar>b - a\<bar> = \<bar>a - b\<bar>" by simp
  ultimately show ?thesis using assms
    by (simp add: markPxDiff_def ParseFloat_def fsub_def fgt_def spec_percentDiff_def Let_def)
qed

text \<open>
  C8: when both reference prices parse to positive finite numbers \<open>a\<close> and \<open>b\<close>, the loop body
  computes \<open>percentDiff = 100 * \<bar>a - b\<bar> / ((a + b) / 2)\<close>, keeps the pair exactly when that is
  not below \<open>minDiff\<close>, and computes the same percentage when the two venues are exchanged.
\<close>

theorem percent_diff_symmetric:
  assumes "MarkPx (Margin m) \<noteq> []" and "MarkPx (Swap m) \<noteq> []"
    and "parse (MarkPx (Margin m)) = Some (Fin a)" and "parse (MarkPx (Swap m)) = Some (Fin b)"
    and "0 < a" and "0 < b"
  shows "markPxDiff parse minDiff m =
           (if flt (Fin (spec_percentDiff a b)) minDiff then None
            else Some \<lparr>diff_BaseSymbol = BaseSymbol m, MarginMarkPx = Fin a, SwapMarkPx = Fin b,
                       diff_PercentDiff = Fin (spec_percentDiff a b),
                       diff_ActualDiff = Fin (b - a), diff_IsContango = (a < b),
                       diff_TermStructure = (if a < b then ''Contango'' else ''Backwardation'')\<rparr>)
         \<and> spec_percentDiff b a = spec_percentDiff a b
         \<and> map_option diff_PercentDiff
             (markPxDiff parse minDiff (m\<lparr>Margin := Swap m, Swap := Margin m\<rparr>))
           = map_option diff_PercentDiff (markPxDiff parse minDiff m)"
proof -
  have sym: "spec_percentDiff b a = spec_percentDiff a b"
    by (simp add: spec_percentDiff_def abs_minus_commute add.commute)
  have 1: "markPxDiff parse minDiff m =
           (if flt (Fin (spec_percentDiff a b)) minDiff then None
            else Some \<lparr>diff_BaseSymbol = BaseSymbol m, MarginMarkPx = Fin a, SwapMarkPx = Fin b,
                       diff_PercentDiff = Fin (spec_percentDiff a b),
                       diff_ActualDiff = Fin (b - a), diff_IsContango = (a < b),
                       diff_TermStructure = (if a < b then ''Contango'' else ''Backwardation'')\<rparr>)"
    by (rule markPxDiff_fin[OF assms])
  have 2: "markPxDiff parse minDiff (m\<lparr>Margin := Swap m, Swap := Margin m\<rparr>) =
           (if flt (Fin (spec_percentDiff b a)) minDiff then None
            else Some \<lparr>diff_BaseSymbol = BaseSymbol m, MarginMarkPx = Fin b, SwapMarkPx = Fin a,
                       diff_PercentDiff = Fin (spec_percentDiff b a),
                       diff_ActualDiff = Fin (a - b), diff_IsContango = (b < a),
                       diff_TermStructure = (if b < a then ''Contango'' else ''Backwardation'')\<rparr>)"
    using markPxDiff_fin[of "m\<lparr>Margin := Swap m, Swap := Margin m\<rparr>" parse b a minDiff] assms
    by simp
  show ?thesis
    unfolding 2 unfolding 1 by (simp add: sym)
qed

theorem percent_diff_symmetric_witness:
  "MarkPx (Margin (example_match ''BTC'' ''100.0'' ''100.3'')) \<noteq> [] \<and>
   MarkPx (Swap (example_match ''BTC'' ''100.0'' ''100.3'')) \<noteq> [] \<and>
   example_parse (MarkPx (Margin (example_match ''BTC'' ''100.0'' ''100.3''))) = Some (Fin 100) \<and>
   example_parse (MarkPx (Swap (example_match ''BTC'' ''100.0'' ''100.3''))) = Some (Fin 100.3) \<and>
   (0::real) < 100 \<and> (0::real) < 100.3 \<and>
   markPxDiff example_parse (Fin 0.24) (example_match ''BTC'' ''100.0'' ''100.3'') =
     Some \<lparr>diff_BaseSymbol = ''BTC'', MarginMarkPx = Fin 100, SwapMarkPx = Fin 100.3,
           diff_PercentDiff = Fin (600 / 2003), diff_ActualDiff = Fin 0.3,
           diff_IsContango = True, diff_TermStructure = ''Contango''\<rparr> \<and>
   map_option diff_PercentDiff
     (markPxDiff example_parse (Fin 0.24)
        ((example_match ''BTC'' ''100.0'' ''100.3'')
           \<lparr>Margin := Swap (example_match ''BTC'' ''100.0'' ''100.3''),
            Swap := Margin (example_match ''BTC'' ''100.0'' ''100.3'')\<rparr>))
     = Some (Fin (600 / 2003))"
  using percent_diff_symmetric[of "example_match ''BTC'' ''100.0'' ''100.3''" example_parse
      100 "100.3" "Fin 0.24"]
  by (simp add: example_match_def example_instrument_def example_parse_def spec_percentDiff_def)

lemma strings_Split_nonempty: "strings_Split sep s \<noteq> []"
  by (induction s) (auto split: list.splits)

lemma strings_Split_no_sep: "sep \<notin> set s \<Longrightarrow> strings_Split sep s = [s]"
  by (induction s) auto

lemma ExtractBaseSymbol_no_dash: "CHR ''-'' \<notin> set instID \<Longrightarrow> ExtractBaseSymbol instID = instID"
  by (simp add: ExtractBaseSymbol_def strings_Split_no_sep)

lemma find_snoc:
  "List.find P (xs @ [x]) =
     (case List.find P xs of None \<Rightarrow> (if P x then Some x else None) | Some y \<Rightarrow> Some y)"
  by (induction xs) auto

lemma foldl_symbol_table:
  "foldl (\<lambda>symbols inst. symbols(ExtractBaseSymbol (InstID inst) \<mapsto> inst)) m instruments k =
     (case last_under_key k instruments of None \<Rightarrow> m k | Some i \<Rightarrow> Some i)"
  by (induction instruments arbitrary: m)
     (auto simp: last_under_key_def find_snoc split: option.splits)

lemma symbol_table_last: "symbol_table instruments k = last_under_key k instruments"
  by (simp add: symbol_table_def foldl_symbol_table split: option.splits)

lemma last_under_key_None:
  "last_under_key k instruments = None \<longleftrightarrow> k \<notin> set (instrument_keys instruments)"
  by (auto simp: last_under_key_def instrument_keys_def find_None_iff)

lemma map_BaseSymbol_FindMatchingSymbols:
  "map BaseSymbol (FindMatchingSymbols ks margin swap) =
     filter (\<lambda>k. k \<in> set (instrument_keys margin) \<and> k \<in> set (instrument_keys swap)) ks"
proof -
  have *: "last_under_key k margin = None \<longleftrightarrow> k \<notin> set (instrument_keys margin)"
       "last_under_key k swap = None \<longleftrightarrow> k \<notin> set (instrument_keys swap)" for k
    by (simp_all add: last_under_key_None)
  show ?thesis
    unfolding FindMatchingSymbols_def Let_def symbol_table_last
  proof (induction ks)
    case Nil
    show ?case by simp
  next
    case (Cons k ks)
    show ?case
    proof (cases "last_under_key k margin")
      case None
      with Cons *(1)[of k] show ?thesis by simp
    next
      case (Some mi)
      note mi = this
      show ?thesis
      proof (cases "last_under_key k swap")
        case None
        with Cons mi *(2)[of k] show ?thesis by simp
      next
        case (Some si)
        with Cons mi *(1)[of k] *(2)[of k] show ?thesis by simp
      qed
    qed
  qed
qed

lemma FindMatchingSymbols_members:
  "p \<in> set (FindMatchingSymbols ks margin swap) \<Longrightarrow>
     last_under_key (BaseSymbol p) margin = Some (Margin p) \<and>
     last_under_key (BaseSymbol p) swap = Some (Swap p)"
  by (auto simp: FindMatchingSymbols_def symbol_table_last List.map_filter_def
      split: option.splits)

text \<open>
  C9: whatever order the keys of the margin lookup are visited in, \<open>FindMatchingSymbols\<close>
  returns exactly one pair for every key that both venues have and none for any other key,
  and each pair holds, for either venue, the instrument processed last under that key.
\<close>

theorem matching_one_pair_per_common_key:
  assumes "range_order ks margin"
  shows "distinct (map BaseSymbol (FindMatchingSymbols ks margin swap)) \<and>
         set (map BaseSymbol (FindMatchingSymbols ks margin swap)) =
           set (instrument_keys margin) \<inter> set (instrument_keys swap) \<and>
         (\<forall>p \<in> set (FindMatchingSymbols ks margin swap).
            last_under_key (BaseSymbol p) margin = Some (Margin p) \<and>
            last_under_key (BaseSymbol p) swap = Some (Swap p))"
  using assms FindMatchingSymbols_members[of _ ks margin swap]
  by (auto simp: map_BaseSymbol_FindMatchingSymbols range_order_def)

lemma example_keys:
  "instrument_keys example_margin = [''BTC'', ''ETH'', ''ETH'', ''DOGE'', ''XAUT'']"
  "instrument_keys example_swap = [''BTC'', ''ETH'', ''SOL'', ''XAUT'']"
  by (simp_all add: instrument_keys_def example_margin_def example_swap_def
      example_instrument_def ExtractBaseSymbol_def)

lemma example_matching:
  "FindMatchingSymbols [''ETH'', ''XAUT'', ''DOGE'', ''BTC''] example_margin example_swap =
     [\<lparr>BaseSymbol = ''ETH'', Margin = example_instrument ''ETH-USDC'' ''MARGIN'' ''202'',
       Swap = example_instrument ''ETH-USDT-SWAP'' ''SWAP'' ''202''\<rparr>,
      \<lparr>BaseSymbol = ''XAUT'', Margin = example_instrument ''XAUT'' ''MARGIN'' ''101'',
       Swap = example_instrument ''XAUT-USDT-SWAP'' ''SWAP'' ''100''\<rparr>,
      \<lparr>BaseSymbol = ''BTC'', Margin = example_instrument ''BTC-USDT'' ''MARGIN'' ''100'',
       Swap = example_instrument ''BTC-USDT-SWAP'' ''SWAP'' ''101''\<rparr>]"
  by (simp add: FindMatchingSymbols_def symbol_table_def example_margin_def example_swap_def
      example_instrument_def ExtractBaseSymbol_def)

theorem matching_one_pair_per_common_key_witness:
  "range_order [''ETH'', ''XAUT'', ''DOGE'', ''BTC''] example_margin \<and>
   map BaseSymbol (FindMatchingSymbols [''ETH'', ''XAUT'', ''DOGE'', ''BTC''] example_margin example_swap)
     = [''ETH'', ''XAUT'', ''BTC''] \<and>
   set (instrument_keys example_margin) \<inter> set (instrument_keys example_swap)
     = {''ETH'', ''XAUT'', ''BTC''} \<and>
   map (\<lambda>p. InstID (Margin p))
     (FindMatchingSymbols [''ETH'', ''XAUT'', ''DOGE'', ''BTC''] example_margin example_swap)
     = [''ETH-USDC'', ''XAUT'', ''BTC-USDT''] \<and>
   last_under_key ''ETH'' example_margin = Some (example_instrument ''ETH-USDC'' ''MARGIN'' ''202'')"
proof -
  have ro: "range_order [''ETH'', ''XAUT'', ''DOGE'', ''BTC''] example_margin"
    by (auto simp: range_order_def example_keys)
  from matching_one_pair_per_common_key[OF ro, of example_swap]
  have "last_under_key ''ETH'' example_margin = Some (example_instrument ''ETH-USDC'' ''MARGIN'' ''202'')"
    by (simp add: example_matching)
  moreover have "set (instrument_keys example_margin) \<inter> set (instrument_keys example_swap)
     = {''ETH'', ''XAUT'', ''BTC''}"
    by (auto simp: example_keys)
  ultimately show ?thesis using ro
    by (simp add: example_matching example_instrument_def)
qed

text \<open>
  C10: an identifier without \<open>-\<close> is returned unchanged by \<open>ExtractBaseSymbol\<close>, so an
  instrument with such an identifier is stored in the lookup under its whole identifier
  and is paired under it when the other venue has that key.
\<close>

theorem dashless_identifier_is_its_own_key:
  assumes "CHR ''-'' \<notin> set (InstID inst)" and "inst \<in> set instruments"
  shows "ExtractBaseSymbol (InstID inst) = InstID inst \<and>
         symbol_table instruments (InstID inst) \<noteq> None \<and>
         (range_order ks instruments \<longrightarrow> InstID inst \<in> set (instrument_keys swap) \<longrightarrow>
            InstID inst \<in> set (map BaseSymbol (FindMatchingSymbols ks instruments swap)))"
proof -
  have key: "ExtractBaseSymbol (InstID inst) = InstID inst"
    by (rule ExtractBaseSymbol_no_dash[OF assms(1)])
  with assms(2) have mem: "InstID inst \<in> set (instrument_keys instruments)"
    by (force simp: instrument_keys_def)
  then have "symbol_table instruments (InstID inst) \<noteq> None"
    by (simp add: symbol_table_last last_under_key_None)
  with key mem show ?thesis
    by (simp add: map_BaseSymbol_FindMatchingSymbols range_order_def)
qed

theorem dashless_identifier_is_its_own_key_witness:
  "CHR ''-'' \<notin> set (InstID (example_instrument ''XAUT'' ''MARGIN'' ''101'')) \<and>
   example_instrument ''XAUT'' ''MARGIN'' ''101'' \<in> set example_margin \<and>
   range_order [''ETH'', ''XAUT'', ''DOGE'', ''BTC''] example_margin \<and>
   InstID (example_instrument ''XAUT'' ''MARGIN'' ''101'') \<in> set (instrument_keys example_swap) \<and>
   ExtractBaseSymbol ''XAUT'' = ''XAUT'' \<and>
   symbol_table example_margin ''XAUT'' \<noteq> None \<and>
   ''XAUT'' \<in> set (map BaseSymbol
      (FindMatchingSymbols [''ETH'', ''XAUT'', ''DOGE'', ''BTC''] example_margin example_swap))"
proof -
  have ro: "range_order [''ETH'', ''XAUT'', ''DOGE'', ''BTC''] example_margin"
    by (auto simp: range_order_def example_keys)
  have a: "CHR ''-'' \<notin> set (InstID (example_instrument ''XAUT'' ''MARGIN'' ''101''))"
    by (simp add: example_instrument_def)
  have b: "example_instrument ''XAUT'' ''MARGIN'' ''101'' \<in> set example_margin"
    by (simp add: example_margin_def)
  have c: "InstID (example_instrument ''XAUT'' ''MARGIN'' ''101'') \<in> set (instrument_keys example_swap)"
    by (simp add: example_keys example_instrument_def)
  from dashless_identifier_is_its_own_key[OF a b, of "[''ETH'', ''XAUT'', ''DOGE'', ''BTC'']" example_swap]
    ro a b c
  show ?thesis by (simp add: example_instrument_def)
qed

section \<open>Properties of the profit filter and the evaluator\<close>





lemma percent_order: "fmul (fdiv d m) (Fin 100) = fdiv (fmul (Fin 100) d) m"
  by (cases d; cases m) (auto simp: mult.commute)

lemma choose_direction_summary:
  "map_option direction_summary (choose_direction baseSymbol mb ms sb ss h) =
     (let contangoPercent = spec_percent (WeightedPrice ss) (WeightedPrice mb);
          backwardationPercent = spec_percent (WeightedPrice ms) (WeightedPrice sb)
      in if fgt contangoPercent backwardationPercent \<and> fgt contangoPercent (Fin 0)
         then Some (True, ''Contango'', contangoPercent,
                    fsub (WeightedPrice ss) (WeightedPrice mb))
         else if fgt backwardationPercent (Fin 0)
         then Some (False, ''Backwardation'', backwardationPercent,
                    fsub (WeightedPrice ms) (WeightedPrice sb))
         else None)"
  by (simp add: choose_direction_def spec_percent_def direction_summary_def percent_order Let_def)

text \<open>
  C5: for a pair whose two order books were fetched, the loop body yields no result when
  the margin reference price does not parse or is not positive. Otherwise the four legs
  are priced at the quantity \<open>TradeSizeUSD / marginPrice\<close>, and when all four are priced
  there is no result if a leg lacks liquidity or has a slippage above \<open>MaxSlippage\<close>; else
  the result is the Contango candidate with \<open>100 * (swapSell - marginBuy) / mean\<close> when that
  percentage is positive and larger than the Backwardation one, the Backwardation
  candidate with \<open>100 * (marginSell - swapBuy) / mean\<close> when that is positive, and no
  result when neither is positive.
\<close>

theorem evaluate_pair:
  assumes "fetch (InstID (Margin m)) (OrderBookDepth config) = Some marginBook"
    and "fetch (InstID (Swap m)) (OrderBookDepth config) = Some swapBook"
  shows "(ParseFloat parse (MarkPx (Margin m)) = None \<longrightarrow>
            realArbitrage parse fetch config m = None)
       \<and> (\<forall>marginPrice. ParseFloat parse (MarkPx (Margin m)) = Some marginPrice \<longrightarrow>
            fle marginPrice (Fin 0) \<longrightarrow> realArbitrage parse fetch config m = None)
       \<and> (\<forall>marginPrice mb ms sb ss.
            ParseFloat parse (MarkPx (Margin m)) = Some marginPrice \<longrightarrow>
            \<not> fle marginPrice (Fin 0) \<longrightarrow>
            CalculateWeightedPrice marginBook ''buy'' (fdiv (TradeSizeUSD config) marginPrice) = Inr mb \<longrightarrow>
            CalculateWeightedPrice marginBook ''sell'' (fdiv (TradeSizeUSD config) marginPrice) = Inr ms \<longrightarrow>
            CalculateWeightedPrice swapBook ''buy'' (fdiv (TradeSizeUSD config) marginPrice) = Inr sb \<longrightarrow>
            CalculateWeightedPrice swapBook ''sell'' (fdiv (TradeSizeUSD config) marginPrice) = Inr ss \<longrightarrow>
            map_option direction_summary (realArbitrage parse fetch config m) =
              (if \<not> (HasEnoughLiquidity mb \<and> HasEnoughLiquidity ms \<and>
                      HasEnoughLiquidity sb \<and> HasEnoughLiquidity ss) then None
               else if fgt (Slippage mb) (MaxSlippage config) \<or> fgt (Slippage ms) (MaxSlippage config) \<or>
                       fgt (Slippage sb) (MaxSlippage config) \<or> fgt (Slippage ss) (MaxSlippage config)
               then None
               else
                 let contangoPercent = spec_percent (WeightedPrice ss) (WeightedPrice mb);
                     backwardationPercent = spec_percent (WeightedPrice ms) (WeightedPrice sb)
                 in if fgt contangoPercent backwardationPercent \<and> fgt contangoPercent (Fin 0)
                    then Some (True, ''Contango'', contangoPercent,
                               fsub (WeightedPrice ss) (WeightedPrice mb))
                    else if fgt backwardationPercent (Fin 0)
                    then Some (False, ''Backwardation'', backwardationPercent,
                               fsub (WeightedPrice ms) (WeightedPrice sb))
                    else None))"
  using assms
  by (auto simp: realArbitrage_def choose_direction_summary Let_def)

lemma example_leg:
  assumes "0 < q" and "q \<le> 50"
  shows "CalculateWeightedPrice (example_book instID bid ask) ''buy'' (Fin q) =
     Inr \<lparr>Symbol = instID, Side = ''buy'', TradeSize = Fin q,
          WeightedPrice = Fin ask, TotalCost = Fin (ask * q), Liquidity = Fin (ask * q),
          HasEnoughLiquidity = True,
          Slippage = fmul (fdiv (Fin 0) (Fin ask)) (Fin 100)\<rparr>"
    and "CalculateWeightedPrice (example_book instID bid ask) ''sell'' (Fin q) =
     Inr \<lparr>Symbol = instID, Side = ''sell'', TradeSize = Fin q,
          WeightedPrice = Fin bid, TotalCost = Fin (bid * q), Liquidity = Fin (bid * q),
          HasEnoughLiquidity = True,
          Slippage = fmul (fdiv (Fin 0) (Fin bid)) (Fin 100)\<rparr>"
  using assms
  by (simp_all add: CalculateWeightedPrice_def example_book_def fin_levels_def price_levels_def
      fgt_def fsub_def mult.commute Let_def)

theorem evaluate_pair_witness:
  "example_fetch (InstID (Margin (example_match ''BTC'' ''100'' ''101''))) (OrderBookDepth example_config)
     = Some (example_book ''BTC-USDT'' 99 100) \<and>
   example_fetch (InstID (Swap (example_match ''BTC'' ''100'' ''101''))) (OrderBookDepth example_config)
     = Some (example_book ''BTC-USDT-SWAP'' 101 102) \<and>
   ParseFloat example_parse (MarkPx (Margin (example_match ''BTC'' ''100'' ''101''))) = Some (Fin 100) \<and>
   \<not> fle (Fin 100) (Fin 0) \<and>
   fdiv (TradeSizeUSD example_config) (Fin 100) = Fin 10 \<and>
   map_option direction_summary
     (realArbitrage example_parse example_fetch example_config (example_match ''BTC'' ''100'' ''101''))
     = Some (True, ''Contango'', Fin (200 / 201), Fin 1) \<and>
   realArbitrage example_parse example_fetch example_config (example_match ''BTC'' ''100'' ''101'')
     = Some (sample_real ''BTC'' (Fin (200 / 201))) \<and>
   realArbitrage example_parse example_fetch example_config (example_match ''ETH'' ''200'' ''202'')
     = None \<and>
   realArbitrage example_parse example_fetch example_config (example_match ''BTC'' ''0'' ''101'')
     = None"
proof -
  have f1: "example_fetch (InstID (Margin (example_match ''BTC'' ''100'' ''101'')))
              (OrderBookDepth example_config) = Some (example_book ''BTC-USDT'' 99 100)"
    and f2: "example_fetch (InstID (Swap (example_match ''BTC'' ''100'' ''101'')))
              (OrderBookDepth example_config) = Some (example_book ''BTC-USDT-SWAP'' 101 102)"
    by (simp_all add: example_fetch_def example_match_def example_instrument_def)
  have p: "ParseFloat example_parse (MarkPx (Margin (example_match ''BTC'' ''100'' ''101'')))
             = Some (Fin 100)"
    by (simp add: ParseFloat_def example_parse_def example_match_def example_instrument_def)
  have q: "fdiv (TradeSizeUSD example_config) (Fin 100) = Fin 10"
    by (simp add: example_config_def)
  from evaluate_pair[where fetch = example_fetch and config = example_config
        and m = "example_match ''BTC'' ''100'' ''101''" and parse = example_parse, OF f1 f2]
  have "map_option direction_summary
     (realArbitrage example_parse example_fetch example_config (example_match ''BTC'' ''100'' ''101''))
     = Some (True, ''Contango'', Fin (200 / 201), Fin 1)"
    by (simp add: p q example_leg spec_percent_def fgt_def fsub_def example_config_def)
  moreover have "realArbitrage example_parse example_fetch example_config
      (example_match ''BTC'' ''100'' ''101'') = Some (sample_real ''BTC'' (Fin (200 / 201)))"
    by (simp add: realArbitrage_def example_fetch_def ParseFloat_def example_parse_def
        example_match_def example_instrument_def example_config_def example_leg
        choose_direction_def fgt_def fsub_def sample_real_def)
  moreover have "realArbitrage example_parse example_fetch example_config
      (example_match ''ETH'' ''200'' ''202'') = None"
    by (simp add: realArbitrage_def example_fetch_def ParseFloat_def example_parse_def
        example_match_def example_instrument_def example_config_def example_leg
        choose_direction_def fgt_def fsub_def)
  moreover have "realArbitrage example_parse example_fetch example_config
      (example_match ''BTC'' ''0'' ''101'') = None"
    by (simp add: realArbitrage_def example_fetch_def ParseFloat_def example_parse_def
        example_match_def example_instrument_def)
  ultimately show ?thesis using f1 f2 p q by simp
qed

section \<open>Properties of the ranking\<close>

lemma mset_sift: "mset (sift f x ys) = add_mset x (mset ys)"
  by (induction ys) auto

lemma mset_foldl_sift: "mset (foldl (\<lambda>left x. sift f x left) acc xs) = mset acc + mset xs"
  by (induction xs arbitrary: acc) (auto simp: mset_sift)

lemma mset_sort_Slice: "mset (sort_Slice f xs) = mset xs"
  by (simp add: sort_Slice_def mset_foldl_sift)

lemma set_sort_Slice: "set (sort_Slice f xs) = set xs"
  by (metis mset_sort_Slice set_mset_mset)

lemma length_sort_Slice: "length (sort_Slice f xs) = length xs"
  by (metis mset_sort_Slice size_mset)



















end
